theory Spec2Isabelle
  imports Main "HOL-Library.AList"
begin

section \<open>Python values, exceptions and effects\<close>

text \<open>
  The values the program handles are Python objects of unknown class (\<open>Any\<close>).  The
  source distinguishes them only by \<open>isinstance(x, (tuple, list))\<close>, by \<open>len\<close> and
  indexing of such a sequence, by key lookup in a dict and by unpacking
  (\<open>a, b = x\<close>), which iterates \<open>x\<close>.  \<open>Opaque\<close> is any object that cannot be iterated
  (\<open>None\<close>, a number, a zero-dimensional tensor); \<open>Tensor\<close> is an array with at least
  one axis, given by its slices along the first axis, which is what iterating it yields.
  A dict is the list of its items in insertion order.
\<close>

datatype val =
    Opaque nat
  | PyStr string
  | PyTuple "val list"
  | PyList "val list"
  | Tensor "val list"
  | PyDict "(string \<times> val) list"

text \<open>
  \<open>Raised n\<close> is an exception raised inside a callable the program is given (the base
  dataset, a transform, the model).
\<close>

datatype exn = ValueError | AssertionError | TypeError | KeyError string | Raised nat

text \<open>
  A call of a given callable may raise, may draw random numbers and may change the
  callable's own state: it takes the state of the world and returns an exception or a
  value, and the new state.
\<close>

type_synonym ('a, 's) py = "'s \<Rightarrow> (exn + 'a) \<times> 's"

definition return_py :: "'a \<Rightarrow> ('a, 's) py" where
  "return_py a s = (Inr a, s)"

definition lift_py :: "exn + 'a \<Rightarrow> ('a, 's) py" where
  "lift_py r s = (r, s)"

definition bind_py :: "('a, 's) py \<Rightarrow> ('a \<Rightarrow> ('b, 's) py) \<Rightarrow> ('b, 's) py" where
  "bind_py m f s = (case m s of (Inl e, s') \<Rightarrow> (Inl e, s') | (Inr a, s') \<Rightarrow> f a s')"

text \<open>What iterating a value yields; \<open>None\<close> when the value is not iterable.\<close>

fun py_iter :: "val \<Rightarrow> val list option" where
  "py_iter (Opaque n) = None"
| "py_iter (PyStr s) = Some (map (\<lambda>c. PyStr [c]) s)"
| "py_iter (PyTuple xs) = Some xs"
| "py_iter (PyList xs) = Some xs"
| "py_iter (Tensor xs) = Some xs"
| "py_iter (PyDict d) = Some (map (\<lambda>kv. PyStr (fst kv)) d)"

text \<open>
  The assignment \<open>a, b = v\<close>: TypeError when \<open>v\<close> is not iterable, ValueError when it
  does not yield exactly two items.
\<close>

definition unpack2 :: "val \<Rightarrow> exn + (val \<times> val)" where
  "unpack2 v =
     (case py_iter v of
        None \<Rightarrow> Inl TypeError
      | Some xs \<Rightarrow> (case xs of [a, b] \<Rightarrow> Inr (a, b) | _ \<Rightarrow> Inl ValueError))"

text \<open>\<open>d[k]\<close> on a dict.\<close>

definition dict_getitem :: "(string \<times> 'v) list \<Rightarrow> string \<Rightarrow> exn + 'v" where
  "dict_getitem d k = (case map_of d k of None \<Rightarrow> Inl (KeyError k) | Some v \<Rightarrow> Inr v)"

text \<open>
  \<open>{**d, k1: v1, ..., kn: vn}\<close> and \<open>{**d, **e}\<close>: a new dict with the items of \<open>d\<close>,
  then each further item stored in turn; a key already present keeps its position and
  takes the new value, a new key goes to the end.
\<close>

definition dict_merge :: "(string \<times> 'v) list \<Rightarrow> (string \<times> 'v) list \<Rightarrow> (string \<times> 'v) list" where
  "dict_merge d e = fold (\<lambda>kv. AList.update (fst kv) (snd kv)) e d"

section \<open>ContrastiveDataset (contrastive\_dataset.py)\<close>

text \<open>The base dataset: its \<open>__getitem__\<close> and its \<open>len\<close>.\<close>

record 's Dataset =
  getitem :: "int \<Rightarrow> (val, 's) py"
  len :: nat

record 's ContrastiveDataset =
  transform_right :: "val \<Rightarrow> (val, 's) py"
  transform_left :: "val \<Rightarrow> (val, 's) py"
  dataset :: "'s Dataset"

text \<open>
  \<open>__init__(self, dataset, transforms=None, transform_left=None, transform_right=None)\<close>;
  an argument that is \<open>None\<close> is \<open>None\<close> here.  The equations are tried in order, as
  the branches of the \<open>if\<close>/\<open>elif\<close>/\<open>else\<close> are.
\<close>

fun ContrastiveDataset_init ::
  "'s Dataset \<Rightarrow> (val \<Rightarrow> (val, 's) py) option \<Rightarrow> (val \<Rightarrow> (val, 's) py) option \<Rightarrow>
   (val \<Rightarrow> (val, 's) py) option \<Rightarrow> exn + 's ContrastiveDataset" where
  "ContrastiveDataset_init ds transforms (Some t_left) (Some t_right) =
     Inr \<lparr>transform_right = t_right, transform_left = t_left, dataset = ds\<rparr>"
| "ContrastiveDataset_init ds (Some t) t_left t_right =
     Inr \<lparr>transform_right = t, transform_left = t, dataset = ds\<rparr>"
| "ContrastiveDataset_init ds None t_left t_right = Inl ValueError"

definition ContrastiveDataset_len :: "'s ContrastiveDataset \<Rightarrow> nat" where
  "ContrastiveDataset_len self = len (dataset self)"

definition ContrastiveDataset_getitem ::
  "'s ContrastiveDataset \<Rightarrow> int \<Rightarrow> ((string \<times> val) list, 's) py" where
  "ContrastiveDataset_getitem self idx =
     bind_py (getitem (dataset self) idx) (\<lambda>item.
     bind_py (lift_py (unpack2 item)) (\<lambda>(sample, target).
     bind_py (transform_left self sample) (\<lambda>aug_1.
     bind_py (transform_right self sample) (\<lambda>aug_2.
     return_py [(''aug1'', aug_1), (''aug2'', aug_2), (''target'', target)]))))"

section \<open>IContrastiveRunner and ContrastiveRunner (runners/contrastive.py)\<close>

text \<open>
  The attributes \<open>_criterion\<close>, \<open>_optimizer\<close> and \<open>_scheduler\<close> are read only through
  \<open>isinstance\<close>: each is \<open>None\<close> (\<open>Unset\<close>), an instance of the class tested
  (\<open>Instance\<close>) or any other object, such as a dict of criteria (\<open>OtherObject\<close>).
\<close>

datatype component = Unset | Instance | OtherObject

record 's runner =
  target_key :: string
  loss_key :: string
  projection_prefix :: string
  augemention_prefix :: string
  embedding_prefix :: string
  model :: "val \<Rightarrow> (val, 's) py"
  batch :: val
  criterion :: component
  optimizer :: component
  scheduler :: component
  valid_loader :: "string option"
  valid_metric :: "string option"

text \<open>\<open>isinstance(batch, (tuple, list))\<close>, with the items of the sequence.\<close>

fun tuple_or_list :: "val \<Rightarrow> val list option" where
  "tuple_or_list (PyTuple xs) = Some xs"
| "tuple_or_list (PyList xs) = Some xs"
| "tuple_or_list v = None"

definition process_batch :: "'s runner \<Rightarrow> val \<Rightarrow> exn + val" where
  "process_batch self b =
     (case tuple_or_list b of
        Some xs \<Rightarrow>
          if length xs = 3
          then Inr (PyDict (dict_merge []
                 [(augemention_prefix self @ ''_left'', xs ! 0),
                  (augemention_prefix self @ ''_right'', xs ! 1),
                  (target_key self, xs ! 2)]))
          else Inl AssertionError
      | None \<Rightarrow> Inr b)"


definition process_input :: "'s runner \<Rightarrow> (string \<times> val) list \<Rightarrow> ((string \<times> val) list, 's) py" where
  "process_input self b =
     bind_py (lift_py (dict_getitem b (augemention_prefix self @ ''_left''))) (\<lambda>view1.
     bind_py (model self view1) (\<lambda>out1.
     bind_py (lift_py (unpack2 out1)) (\<lambda>(embedding1, projection1).
     bind_py (lift_py (dict_getitem b (augemention_prefix self @ ''_right''))) (\<lambda>view2.
     bind_py (model self view2) (\<lambda>out2.
     bind_py (lift_py (unpack2 out2)) (\<lambda>(embedding2, projection2).
     return_py (dict_merge b
       [(projection_prefix self @ ''_left'', projection1),
        (projection_prefix self @ ''_right'', projection2),
        (embedding_prefix self @ ''_left'', embedding1),
        (embedding_prefix self @ ''_right'', embedding2)])))))))"

definition forward :: "'s runner \<Rightarrow> (string \<times> val) list \<Rightarrow> ((string \<times> val) list, 's) py" where
  "forward self b = process_input self b"

text \<open>
  \<open>handle_batch\<close> assigns \<open>self.batch\<close>: it returns the exception raised, if any, and the
  runner as it is after the call.
\<close>

definition handle_batch ::
  "'s runner \<Rightarrow> (string \<times> val) list \<Rightarrow> 's \<Rightarrow> (exn option \<times> 's runner) \<times> 's" where
  "handle_batch self b s =
     (case forward self b s of
        (Inl e, s') \<Rightarrow> ((Some e, self), s')
      | (Inr out, s') \<Rightarrow> ((None, self\<lparr>batch := PyDict (dict_merge b out)\<rparr>), s'))"

subsection \<open>Callbacks\<close>

datatype role = ICriterionCallback | IOptimizerCallback | ISchedulerCallback

text \<open>
  The three callbacks the runner builds, with their keyword arguments
  (\<open>CriterionCallback input_key target_key metric_key\<close>, \<open>OptimizerCallback metric_key\<close>,
  \<open>SchedulerCallback loader_key metric_key\<close>), and a callback of any other class, given by
  a tag and the roles it declares.
\<close>

datatype callback =
    CriterionCallback string string string
  | OptimizerCallback string
  | SchedulerCallback "string option" "string option"
  | OtherCallback nat "role list"

text \<open>
  Modelled from the spec: \<open>catalyst.core.misc.callback_isinstance\<close> and the callback
  classes of \<open>catalyst.callbacks\<close> are not among the sources.  The test is whether the
  callback declares the role (a capability check); each default callback declares the
  role it is injected for.
\<close>

fun callback_isinstance :: "callback \<Rightarrow> role \<Rightarrow> bool" where
  "callback_isinstance (CriterionCallback i t m) r = (r = ICriterionCallback)"
| "callback_isinstance (OptimizerCallback m) r = (r = IOptimizerCallback)"
| "callback_isinstance (SchedulerCallback l m) r = (r = ISchedulerCallback)"
| "callback_isinstance (OtherCallback n rs) r = (r \<in> set rs)"

definition is_callback_exists :: "(string \<times> callback) list \<Rightarrow> role \<Rightarrow> bool" where
  "is_callback_exists callbacks callback_fn =
     list_ex (\<lambda>x. callback_isinstance x callback_fn) (map snd callbacks)"

text \<open>
  \<open>get_callbacks\<close>; \<open>base\<close> is what \<open>super().get_callbacks(stage=stage)\<close> returns, the
  callbacks registered so far.  \<open>callbacks[k] = v\<close> on the ordered dict is \<open>AList.update\<close>.
\<close>

definition get_callbacks :: "'s runner \<Rightarrow> (string \<times> callback) list \<Rightarrow> (string \<times> callback) list" where
  "get_callbacks self base =
     (let callbacks1 =
            (if criterion self = Instance \<and> \<not> is_callback_exists base ICriterionCallback
             then AList.update ''_criterion''
                    (CriterionCallback (projection_prefix self @ ''_1'')
                       (projection_prefix self @ ''_2'') (loss_key self)) base
             else base);
          callbacks2 =
            (if optimizer self = Instance \<and> \<not> is_callback_exists callbacks1 IOptimizerCallback
             then AList.update ''_optimizer'' (OptimizerCallback (loss_key self)) callbacks1
             else callbacks1);
          callbacks3 =
            (if scheduler self = Instance \<and> \<not> is_callback_exists callbacks2 ISchedulerCallback
             then AList.update ''_scheduler''
                    (SchedulerCallback (valid_loader self) (valid_metric self)) callbacks2
             else callbacks2)
      in callbacks3)"





section \<open>Example objects\<close>

text \<open>
  A base dataset of four samples with targets 0, 1, 0, 1; a stochastic transform that
  tags the view with its own number and with a number drawn from the state; a model that
  returns its input as embedding and projection, as a tuple and as a list; a model that
  returns its input alone; a model that raises.
\<close>

definition example_dataset :: "nat Dataset" where
  "example_dataset =
     \<lparr>getitem = (\<lambda>idx s. if 0 \<le> idx \<and> idx < 4
                   then (Inr (PyTuple [Opaque (10 + nat idx), Opaque (nat idx mod 2)]), s)
                   else (Inl (Raised 0), s)),
      len = 4\<rparr>"

definition tag_view :: "nat \<Rightarrow> val \<Rightarrow> (val, nat) py" where
  "tag_view n x s = (Inr (PyTuple [Opaque n, x, Opaque s]), Suc s)"

definition tuple_model :: "val \<Rightarrow> (val, nat) py" where
  "tuple_model x s = (Inr (PyTuple [x, x]), s)"

definition list_model :: "val \<Rightarrow> (val, nat) py" where
  "list_model x s = (Inr (PyList [x, x]), s)"

definition example_runner :: "(val \<Rightarrow> (val, nat) py) \<Rightarrow> nat runner" where
  "example_runner m =
     \<lparr>target_key = ''target'', loss_key = ''loss'', projection_prefix = ''projection'',
      augemention_prefix = ''aug'', embedding_prefix = ''embedding'', model = m,
      batch = Opaque 0, criterion = Instance, optimizer = Instance, scheduler = Unset,
      valid_loader = Some ''train'', valid_metric = Some ''loss''\<rparr>"

definition single_model :: "val \<Rightarrow> (val, nat) py" where
  "single_model x s = (Inr x, s)"

definition raising_model :: "val \<Rightarrow> (val, nat) py" where
  "raising_model x s = (Inl (Raised 1), Suc s)"

section \<open>Basic facts about the effects\<close>

lemma bind_py_Inr: "m s = (Inr a, s') \<Longrightarrow> bind_py m f s = f a s'"
  by (simp add: bind_py_def)

lemma bind_py_Inl: "m s = (Inl e, s') \<Longrightarrow> bind_py m f s = (Inl e, s')"
  by (simp add: bind_py_def)

lemma lift_py_apply: "lift_py r s = (r, s)"
  by (simp add: lift_py_def)

section \<open>Facts about dicts\<close>














section \<open>Construction of the dataset\<close>

text \<open>
  C8.  Construction raises (the \<open>ValueError\<close> of the source, the spec's
  ConfigurationError) exactly when \<open>transforms\<close> is missing and \<open>transform_left\<close> or
  \<open>transform_right\<close> is missing; it succeeds exactly when \<open>transforms\<close> is given or both
  per-view transforms are.
\<close>

theorem ContrastiveDataset_init_fails_iff:
  "(ContrastiveDataset_init ds transforms t_left t_right = Inl ValueError
      \<longleftrightarrow> transforms = None \<and> (t_left = None \<or> t_right = None))
   \<and> ((\<exists>self. ContrastiveDataset_init ds transforms t_left t_right = Inr self)
      \<longleftrightarrow> transforms \<noteq> None \<or> (t_left \<noteq> None \<and> t_right \<noteq> None))"
  by (cases transforms; cases t_left; cases t_right) simp_all

theorem ContrastiveDataset_init_fails_iff_witness:
  "ContrastiveDataset_init example_dataset None (Some (tag_view 1)) None = Inl ValueError
   \<and> (\<exists>self. ContrastiveDataset_init example_dataset (Some (tag_view 0)) None None = Inr self)
   \<and> (\<exists>self. ContrastiveDataset_init example_dataset None (Some (tag_view 1)) (Some (tag_view 2)) = Inr self)"
  using ContrastiveDataset_init_fails_iff [of example_dataset None "Some (tag_view 1)" None]
    ContrastiveDataset_init_fails_iff [of example_dataset "Some (tag_view 0)" None None]
    ContrastiveDataset_init_fails_iff [of example_dataset None "Some (tag_view 1)" "Some (tag_view 2)"]
  by simp

section \<open>Fetching a record\<close>

lemma getitem_returns:
  assumes "getitem (dataset self) idx s0 = (Inr item, s1)"
    and "unpack2 item = Inr (sample, target)"
    and "transform_left self sample s1 = (Inr aug_1, s2)"
    and "transform_right self sample s2 = (Inr aug_2, s3)"
  shows "ContrastiveDataset_getitem self idx s0 =
      (Inr [(''aug1'', aug_1), (''aug2'', aug_2), (''target'', target)], s3)"
  using assms by (simp add: ContrastiveDataset_getitem_def bind_py_def lift_py_def return_py_def)

text \<open>
  C7.  When the base dataset returns a pair \<open>(sample, target)\<close> at the index and both
  transforms return, the record fetched has exactly the keys \<open>aug1\<close>, \<open>aug2\<close>, \<open>target\<close>:
  \<open>target\<close> is the base dataset's target, \<open>aug1\<close> is what the left transform returns on the
  sample and \<open>aug2\<close> what the right transform returns on it, called one after the other
  (the right one in the state the left one leaves).  A dataset constructed with both
  \<open>transform_left\<close> and \<open>transform_right\<close> holds these two, whatever \<open>transforms\<close> is.
\<close>

theorem ContrastiveDataset_getitem_record:
  "(getitem (dataset self) idx s0 = (Inr item, s1) \<and> unpack2 item = Inr (sample, target)
      \<and> transform_left self sample s1 = (Inr aug_1, s2)
      \<and> transform_right self sample s2 = (Inr aug_2, s3)
    \<longrightarrow> ContrastiveDataset_getitem self idx s0 =
          (Inr [(''aug1'', aug_1), (''aug2'', aug_2), (''target'', target)], s3))
   \<and> ContrastiveDataset_init ds transforms (Some t_left) (Some t_right) =
       Inr \<lparr>transform_right = t_right, transform_left = t_left, dataset = ds\<rparr>"
  using getitem_returns [of self idx s0 item s1 sample target aug_1 s2 aug_2 s3] by simp

theorem ContrastiveDataset_getitem_record_witness:
  "ContrastiveDataset_getitem
     \<lparr>transform_right = tag_view 2, transform_left = tag_view 1, dataset = example_dataset\<rparr> 3 7 =
   (Inr [(''aug1'', PyTuple [Opaque 1, Opaque 13, Opaque 7]),
         (''aug2'', PyTuple [Opaque 2, Opaque 13, Opaque 8]),
         (''target'', Opaque 1)], 9)
   \<and> ContrastiveDataset_init example_dataset (Some (tag_view 0)) (Some (tag_view 1)) (Some (tag_view 2)) =
       Inr \<lparr>transform_right = tag_view 2, transform_left = tag_view 1, dataset = example_dataset\<rparr>"
  using ContrastiveDataset_getitem_record
    [of "\<lparr>transform_right = tag_view 2, transform_left = tag_view 1, dataset = example_dataset\<rparr>"
        3 7 "PyTuple [Opaque 13, Opaque 1]" 7 "Opaque 13" "Opaque 1"
        "PyTuple [Opaque 1, Opaque 13, Opaque 7]" 8 "PyTuple [Opaque 2, Opaque 13, Opaque 8]" 9
        example_dataset "Some (tag_view 0)" "tag_view 1" "tag_view 2"]
  by (simp add: example_dataset_def tag_view_def unpack2_def)

text \<open>
  C10.  With \<open>transforms\<close> and exactly one of \<open>transform_left\<close>, \<open>transform_right\<close>,
  construction succeeds and both views come from \<open>transforms\<close>: the lone per-view
  transform is not kept, and a record fetched holds the results of two calls of
  \<open>transforms\<close>.  The per-view pair is kept in place of \<open>transforms\<close> only when both are
  given.
\<close>

theorem ContrastiveDataset_init_lone_view_ignored:
  "ContrastiveDataset_init ds (Some t) (Some t_left) None =
     Inr \<lparr>transform_right = t, transform_left = t, dataset = ds\<rparr>
   \<and> ContrastiveDataset_init ds (Some t) None (Some t_right) =
     Inr \<lparr>transform_right = t, transform_left = t, dataset = ds\<rparr>
   \<and> ContrastiveDataset_init ds (Some t) (Some t_left) (Some t_right) =
     Inr \<lparr>transform_right = t_right, transform_left = t_left, dataset = ds\<rparr>
   \<and> (getitem ds idx s0 = (Inr item, s1) \<and> unpack2 item = Inr (sample, target)
        \<and> t sample s1 = (Inr aug_1, s2) \<and> t sample s2 = (Inr aug_2, s3)
      \<longrightarrow> ContrastiveDataset_getitem \<lparr>transform_right = t, transform_left = t, dataset = ds\<rparr> idx s0 =
            (Inr [(''aug1'', aug_1), (''aug2'', aug_2), (''target'', target)], s3))"
  using getitem_returns
    [of "\<lparr>transform_right = t, transform_left = t, dataset = ds\<rparr>" idx s0 item s1 sample target
        aug_1 s2 aug_2 s3]
  by simp

theorem ContrastiveDataset_init_lone_view_ignored_witness:
  "ContrastiveDataset_init example_dataset (Some (tag_view 0)) (Some (tag_view 1)) None =
     Inr \<lparr>transform_right = tag_view 0, transform_left = tag_view 0, dataset = example_dataset\<rparr>
   \<and> ContrastiveDataset_getitem
       \<lparr>transform_right = tag_view 0, transform_left = tag_view 0, dataset = example_dataset\<rparr> 2 5 =
     (Inr [(''aug1'', PyTuple [Opaque 0, Opaque 12, Opaque 5]),
           (''aug2'', PyTuple [Opaque 0, Opaque 12, Opaque 6]),
           (''target'', Opaque 0)], 7)"
  using ContrastiveDataset_init_lone_view_ignored
    [of example_dataset "tag_view 0" "tag_view 1" "tag_view 2" 2 5 "PyTuple [Opaque 12, Opaque 0]" 5
        "Opaque 12" "Opaque 0" "PyTuple [Opaque 0, Opaque 12, Opaque 5]" 6
        "PyTuple [Opaque 0, Opaque 12, Opaque 6]" 7]
  by (simp add: example_dataset_def tag_view_def unpack2_def)

section \<open>The forward pass on both views\<close>

lemma unpack2_Inr_iff: "unpack2 v = Inr (a, b) \<longleftrightarrow> py_iter v = Some [a, b]"
  by (auto simp: unpack2_def split: option.splits list.splits)

lemma unpack2_not_iterable: "py_iter v = None \<Longrightarrow> unpack2 v = Inl TypeError"
  by (simp add: unpack2_def)

lemma unpack2_wrong_length: "py_iter v = Some xs \<Longrightarrow> length xs \<noteq> 2 \<Longrightarrow> unpack2 v = Inl ValueError"
  by (auto simp: unpack2_def split: list.splits)

lemma process_input_returns:
  assumes "dict_getitem b (augemention_prefix self @ ''_left'') = Inr view1"
    and "model self view1 s0 = (Inr out1, s1)"
    and "unpack2 out1 = Inr (e1, p1)"
    and "dict_getitem b (augemention_prefix self @ ''_right'') = Inr view2"
    and "model self view2 s1 = (Inr out2, s2)"
    and "unpack2 out2 = Inr (e2, p2)"
  shows "process_input self b s0 =
    (Inr (dict_merge b
       [(projection_prefix self @ ''_left'', p1), (projection_prefix self @ ''_right'', p2),
        (embedding_prefix self @ ''_left'', e1), (embedding_prefix self @ ''_right'', e2)]), s2)"
  using assms by (simp add: process_input_def bind_py_def lift_py_def return_py_def)

lemma process_input_left_fails:
  assumes "dict_getitem b (augemention_prefix self @ ''_left'') = Inr view1"
    and "model self view1 s0 = (Inr out1, s1)"
    and "unpack2 out1 = Inl e"
  shows "process_input self b s0 = (Inl e, s1)"
  using assms by (simp add: process_input_def bind_py_def lift_py_def return_py_def)

lemma process_input_right_fails:
  assumes "dict_getitem b (augemention_prefix self @ ''_left'') = Inr view1"
    and "model self view1 s0 = (Inr out1, s1)"
    and "unpack2 out1 = Inr (e1, p1)"
    and "dict_getitem b (augemention_prefix self @ ''_right'') = Inr view2"
    and "model self view2 s1 = (Inr out2, s2)"
    and "unpack2 out2 = Inl e"
  shows "process_input self b s0 = (Inl e, s2)"
  using assms by (simp add: process_input_def bind_py_def lift_py_def return_py_def)




lemmas example_defs =
  example_runner_def tuple_model_def list_model_def single_model_def raising_model_def
  process_input_def forward_def handle_batch_def bind_py_def lift_py_def return_py_def
  dict_getitem_def dict_merge_def unpack2_def

text \<open>
  C2, as stated, fails: a batch that already holds \<open>projection_right\<close> goes through
  \<open>_process_input\<close> without any exception, and the value it held is replaced.
\<close>

theorem process_input_overwrites_colliding_key:
  "process_input (example_runner tuple_model)
     [(''aug_left'', Opaque 1), (''aug_right'', Opaque 2), (''projection_right'', Opaque 9)] 0 =
   (Inr [(''aug_left'', Opaque 1), (''aug_right'', Opaque 2), (''projection_right'', Opaque 2),
         (''projection_left'', Opaque 1), (''embedding_left'', Opaque 1),
         (''embedding_right'', Opaque 2)], 0)"
  by (simp add: example_defs)

text \<open>
  C2, amended.  For every batch that holds both views, and a model whose result on each
  view unpacks into two items, \<open>_process_input\<close> returns whether or not the batch
  already holds some of the four enrichment keys.  The result is the batch with the four
  keys written in the order \<open>projection_left\<close>, \<open>projection_right\<close>, \<open>embedding_left\<close>,
  \<open>embedding_right\<close>: a value the batch held under one of them is replaced by the model's
  output (the last write wins).
\<close>

theorem process_input_last_write_wins:
  "dict_getitem b (augemention_prefix self @ ''_left'') = Inr view1
   \<and> model self view1 s0 = (Inr out1, s1) \<and> unpack2 out1 = Inr (e1, p1)
   \<and> dict_getitem b (augemention_prefix self @ ''_right'') = Inr view2
   \<and> model self view2 s1 = (Inr out2, s2) \<and> unpack2 out2 = Inr (e2, p2)
   \<longrightarrow> (\<exists>out. process_input self b s0 = (Inr out, s2)
          \<and> map_of out = (map_of b)
               (projection_prefix self @ ''_left'' \<mapsto> p1, projection_prefix self @ ''_right'' \<mapsto> p2,
                embedding_prefix self @ ''_left'' \<mapsto> e1, embedding_prefix self @ ''_right'' \<mapsto> e2))"
proof
  assume h: "dict_getitem b (augemention_prefix self @ ''_left'') = Inr view1
   \<and> model self view1 s0 = (Inr out1, s1) \<and> unpack2 out1 = Inr (e1, p1)
   \<and> dict_getitem b (augemention_prefix self @ ''_right'') = Inr view2
   \<and> model self view2 s1 = (Inr out2, s2) \<and> unpack2 out2 = Inr (e2, p2)"
  let ?out = "dict_merge b
       [(projection_prefix self @ ''_left'', p1), (projection_prefix self @ ''_right'', p2),
        (embedding_prefix self @ ''_left'', e1), (embedding_prefix self @ ''_right'', e2)]"
  have "process_input self b s0 = (Inr ?out, s2)"
    using h process_input_returns [of b self view1 s0 out1 s1 e1 p1 view2 out2 s2 e2 p2] by blast
  moreover have "map_of ?out = (map_of b)
               (projection_prefix self @ ''_left'' \<mapsto> p1, projection_prefix self @ ''_right'' \<mapsto> p2,
                embedding_prefix self @ ''_left'' \<mapsto> e1, embedding_prefix self @ ''_right'' \<mapsto> e2)"
    by (simp add: dict_merge_def update_conv')
  ultimately show "\<exists>out. process_input self b s0 = (Inr out, s2)
          \<and> map_of out = (map_of b)
               (projection_prefix self @ ''_left'' \<mapsto> p1, projection_prefix self @ ''_right'' \<mapsto> p2,
                embedding_prefix self @ ''_left'' \<mapsto> e1, embedding_prefix self @ ''_right'' \<mapsto> e2)"
    by blast
qed

theorem process_input_last_write_wins_witness:
  "\<exists>out. process_input (example_runner tuple_model)
       [(''aug_left'', Opaque 1), (''aug_right'', Opaque 2), (''embedding_right'', Opaque 9)] 0 = (Inr out, 0)
     \<and> map_of out = (map_of [(''aug_left'', Opaque 1), (''aug_right'', Opaque 2), (''embedding_right'', Opaque 9)])
          (''projection_left'' \<mapsto> Opaque 1, ''projection_right'' \<mapsto> Opaque 2,
           ''embedding_left'' \<mapsto> Opaque 1, ''embedding_right'' \<mapsto> Opaque 2)"
  using process_input_last_write_wins
    [where self = "example_runner tuple_model"
       and b = "[(''aug_left'', Opaque 1), (''aug_right'', Opaque 2), (''embedding_right'', Opaque 9)]"
       and ?s0.0 = 0 and ?s1.0 = 0 and ?s2.0 = 0
       and ?view1.0 = "Opaque 1" and ?view2.0 = "Opaque 2"
       and ?out1.0 = "PyTuple [Opaque 1, Opaque 1]" and ?out2.0 = "PyTuple [Opaque 2, Opaque 2]"
       and ?e1.0 = "Opaque 1" and ?p1.0 = "Opaque 1" and ?e2.0 = "Opaque 2" and ?p2.0 = "Opaque 2"]
  by (simp add: example_runner_def tuple_model_def dict_getitem_def unpack2_def)

text \<open>
  C3, as stated, fails.  A model that returns a single value, its input, is accepted when
  that value yields two items: for a tensor of two rows and for a list of two items,
  neither of them a two-tuple, \<open>_process_input\<close> returns the enriched batch, with the
  first item as the embedding and the second as the projection.
\<close>

theorem process_input_accepts_single_value_of_two_items:
  "single_model (Tensor [Opaque 1, Opaque 2]) 0 = (Inr (Tensor [Opaque 1, Opaque 2]), 0)
   \<and> process_input (example_runner single_model)
        [(''aug_left'', Tensor [Opaque 1, Opaque 2]),
         (''aug_right'', Tensor [Opaque 3, Opaque 4])] 0 =
       (Inr [(''aug_left'', Tensor [Opaque 1, Opaque 2]),
             (''aug_right'', Tensor [Opaque 3, Opaque 4]),
             (''projection_left'', Opaque 2), (''projection_right'', Opaque 4),
             (''embedding_left'', Opaque 1), (''embedding_right'', Opaque 3)], 0)
   \<and> single_model (PyList [Opaque 5, Opaque 6]) 0 = (Inr (PyList [Opaque 5, Opaque 6]), 0)
   \<and> process_input (example_runner single_model)
        [(''aug_left'', PyList [Opaque 5, Opaque 6]),
         (''aug_right'', PyList [Opaque 7, Opaque 8])] 0 =
       (Inr [(''aug_left'', PyList [Opaque 5, Opaque 6]),
             (''aug_right'', PyList [Opaque 7, Opaque 8]),
             (''projection_left'', Opaque 6), (''projection_right'', Opaque 8),
             (''embedding_left'', Opaque 5), (''embedding_right'', Opaque 7)], 0)"
  by (simp add: example_defs)

text \<open>
  C3, amended.  For every batch, when the value the model returns for a view cannot be
  unpacked into two items, \<open>_process_input\<close> raises: \<open>TypeError\<close> when the value is
  not iterable, \<open>ValueError\<close> when iterating it does not yield exactly two items.  This
  holds for the left view and, once the left view has been unpacked, for the right view.
  Any value that yields exactly two items is accepted, whether a tuple or not (a list of
  two, a tensor of two rows): when both views give such a value, \<open>_process_input\<close>
  returns the batch with the first item of each stored as the embedding of its view
  and the second item as the projection of its view.
\<close>

theorem process_input_unpack_failure:
  "dict_getitem b (augemention_prefix self @ ''_left'') = Inr view1
   \<and> model self view1 s0 = (Inr out1, s1)
   \<longrightarrow> (py_iter out1 = None \<longrightarrow> process_input self b s0 = (Inl TypeError, s1))
     \<and> (\<forall>xs. py_iter out1 = Some xs \<and> length xs \<noteq> 2
            \<longrightarrow> process_input self b s0 = (Inl ValueError, s1))
     \<and> (\<forall>e1 p1 view2 out2 s2.
           py_iter out1 = Some [e1, p1]
           \<and> dict_getitem b (augemention_prefix self @ ''_right'') = Inr view2
           \<and> model self view2 s1 = (Inr out2, s2)
           \<longrightarrow> (py_iter out2 = None \<longrightarrow> process_input self b s0 = (Inl TypeError, s2))
             \<and> (\<forall>ys. py_iter out2 = Some ys \<and> length ys \<noteq> 2
                    \<longrightarrow> process_input self b s0 = (Inl ValueError, s2))
             \<and> (\<forall>e2 p2. py_iter out2 = Some [e2, p2]
                    \<longrightarrow> process_input self b s0 =
                        (Inr (dict_merge b
                           [(projection_prefix self @ ''_left'', p1),
                            (projection_prefix self @ ''_right'', p2),
                            (embedding_prefix self @ ''_left'', e1),
                            (embedding_prefix self @ ''_right'', e2)]), s2)))"
proof (intro impI conjI allI; (elim conjE)?)
  assume l: "dict_getitem b (augemention_prefix self @ ''_left'') = Inr view1"
    "model self view1 s0 = (Inr out1, s1)"
  {
    assume "py_iter out1 = None"
    then have "unpack2 out1 = Inl TypeError" by (rule unpack2_not_iterable)
    with l show "process_input self b s0 = (Inl TypeError, s1)"
      by (rule process_input_left_fails)
  }
  {
    fix xs assume "py_iter out1 = Some xs" "length xs \<noteq> 2"
    then have "unpack2 out1 = Inl ValueError" by (rule unpack2_wrong_length)
    with l show "process_input self b s0 = (Inl ValueError, s1)"
      by (rule process_input_left_fails)
  }
  fix e1 p1 view2 out2 s2
  assume "py_iter out1 = Some [e1, p1]"
  then have u: "unpack2 out1 = Inr (e1, p1)" by (simp add: unpack2_Inr_iff)
  assume r: "dict_getitem b (augemention_prefix self @ ''_right'') = Inr view2"
    "model self view2 s1 = (Inr out2, s2)"
  {
    assume "py_iter out2 = None"
    then have "unpack2 out2 = Inl TypeError" by (rule unpack2_not_iterable)
    with l u r show "process_input self b s0 = (Inl TypeError, s2)"
      by (rule process_input_right_fails)
  }
  {
    fix ys assume "py_iter out2 = Some ys" "length ys \<noteq> 2"
    then have "unpack2 out2 = Inl ValueError" by (rule unpack2_wrong_length)
    with l u r show "process_input self b s0 = (Inl ValueError, s2)"
      by (rule process_input_right_fails)
  }
  {
    fix e2 p2 assume "py_iter out2 = Some [e2, p2]"
    then have "unpack2 out2 = Inr (e2, p2)" by (simp add: unpack2_Inr_iff)
    with l u r show "process_input self b s0 =
        (Inr (dict_merge b
           [(projection_prefix self @ ''_left'', p1), (projection_prefix self @ ''_right'', p2),
            (embedding_prefix self @ ''_left'', e1), (embedding_prefix self @ ''_right'', e2)]), s2)"
      by (rule process_input_returns)
  }
qed

theorem process_input_unpack_failure_witness:
  "process_input (example_runner single_model)
     [(''aug_left'', Opaque 1), (''aug_right'', Opaque 2)] 0 = (Inl TypeError, 0)
   \<and> process_input (example_runner single_model)
       [(''aug_left'', Tensor [Opaque 1, Opaque 2, Opaque 3]),
        (''aug_right'', Tensor [Opaque 4, Opaque 5, Opaque 6])] 0 = (Inl ValueError, 0)
   \<and> process_input (example_runner single_model)
       [(''aug_left'', Tensor [Opaque 1, Opaque 2]),
        (''aug_right'', Tensor [Opaque 3, Opaque 4])] 0 =
      (Inr [(''aug_left'', Tensor [Opaque 1, Opaque 2]),
            (''aug_right'', Tensor [Opaque 3, Opaque 4]),
            (''projection_left'', Opaque 2), (''projection_right'', Opaque 4),
            (''embedding_left'', Opaque 1), (''embedding_right'', Opaque 3)], 0)"
  using process_input_unpack_failure
    [where self = "example_runner single_model"
       and b = "[(''aug_left'', Opaque 1), (''aug_right'', Opaque 2)]"
       and ?view1.0 = "Opaque 1" and ?s0.0 = 0 and ?out1.0 = "Opaque 1" and ?s1.0 = 0]
    process_input_unpack_failure
    [where self = "example_runner single_model"
       and b = "[(''aug_left'', Tensor [Opaque 1, Opaque 2, Opaque 3]),
                 (''aug_right'', Tensor [Opaque 4, Opaque 5, Opaque 6])]"
       and ?view1.0 = "Tensor [Opaque 1, Opaque 2, Opaque 3]" and ?s0.0 = 0
       and ?out1.0 = "Tensor [Opaque 1, Opaque 2, Opaque 3]" and ?s1.0 = 0]
    process_input_unpack_failure
    [where self = "example_runner single_model"
       and b = "[(''aug_left'', Tensor [Opaque 1, Opaque 2]),
                 (''aug_right'', Tensor [Opaque 3, Opaque 4])]"
       and ?view1.0 = "Tensor [Opaque 1, Opaque 2]" and ?s0.0 = 0
       and ?out1.0 = "Tensor [Opaque 1, Opaque 2]" and ?s1.0 = 0]
  by (simp add: example_runner_def single_model_def dict_getitem_def dict_merge_def)





section \<open>Normalizing the batch\<close>

text \<open>
  C4.  A batch that is a tuple or a list must have exactly three items:
  \<open>_process_batch\<close> raises (the \<open>AssertionError\<close> of the source's \<open>assert\<close>, the spec's
  ShapeError) when its length is not 3.  With three items it returns the dict
  \<open>{aug_left: item 0, aug_right: item 1, target_key: item 2}\<close>; when the target key is
  none of the two view keys these are its three items, in this order.
\<close>

theorem process_batch_flat:
  "(length xs \<noteq> 3 \<longrightarrow> process_batch self (PyTuple xs) = Inl AssertionError
        \<and> process_batch self (PyList xs) = Inl AssertionError)
   \<and> (\<exists>d. process_batch self (PyTuple [v0, v1, v2]) = Inr (PyDict d)
        \<and> process_batch self (PyList [v0, v1, v2]) = Inr (PyDict d)
        \<and> map_of d = [augemention_prefix self @ ''_left'' \<mapsto> v0,
                       augemention_prefix self @ ''_right'' \<mapsto> v1, target_key self \<mapsto> v2]
        \<and> (target_key self \<noteq> augemention_prefix self @ ''_left''
             \<and> target_key self \<noteq> augemention_prefix self @ ''_right''
           \<longrightarrow> d = [(augemention_prefix self @ ''_left'', v0),
                    (augemention_prefix self @ ''_right'', v1), (target_key self, v2)]))"
proof (intro conjI impI)
  assume "length xs \<noteq> 3"
  then show "process_batch self (PyTuple xs) = Inl AssertionError"
    and "process_batch self (PyList xs) = Inl AssertionError"
    by (simp_all add: process_batch_def)
next
  let ?d = "dict_merge [] [(augemention_prefix self @ ''_left'', v0),
        (augemention_prefix self @ ''_right'', v1), (target_key self, v2)]"
  have 1: "process_batch self (PyTuple [v0, v1, v2]) = Inr (PyDict ?d)"
    and 2: "process_batch self (PyList [v0, v1, v2]) = Inr (PyDict ?d)"
    by (simp_all add: process_batch_def)
  have 3: "map_of ?d = [augemention_prefix self @ ''_left'' \<mapsto> v0,
                       augemention_prefix self @ ''_right'' \<mapsto> v1, target_key self \<mapsto> v2]"
    by (simp only: dict_merge_def fold.simps comp_def id_apply fst_conv snd_conv update_conv'
        map_of.simps)
  have 4: "target_key self \<noteq> augemention_prefix self @ ''_left''
             \<and> target_key self \<noteq> augemention_prefix self @ ''_right''
           \<longrightarrow> ?d = [(augemention_prefix self @ ''_left'', v0),
                    (augemention_prefix self @ ''_right'', v1), (target_key self, v2)]"
    by (auto simp: dict_merge_def)
  from 1 2 3 4 show "\<exists>d. process_batch self (PyTuple [v0, v1, v2]) = Inr (PyDict d)
        \<and> process_batch self (PyList [v0, v1, v2]) = Inr (PyDict d)
        \<and> map_of d = [augemention_prefix self @ ''_left'' \<mapsto> v0,
                       augemention_prefix self @ ''_right'' \<mapsto> v1, target_key self \<mapsto> v2]
        \<and> (target_key self \<noteq> augemention_prefix self @ ''_left''
             \<and> target_key self \<noteq> augemention_prefix self @ ''_right''
           \<longrightarrow> d = [(augemention_prefix self @ ''_left'', v0),
                    (augemention_prefix self @ ''_right'', v1), (target_key self, v2)])"
    by (intro exI [of _ ?d] conjI)
qed

theorem process_batch_flat_witness:
  "process_batch (example_runner tuple_model) (PyTuple [Opaque 1, Opaque 2]) = Inl AssertionError
   \<and> process_batch (example_runner tuple_model) (PyList [Opaque 1, Opaque 2]) = Inl AssertionError
   \<and> (\<exists>d. process_batch (example_runner tuple_model) (PyTuple [Opaque 1, Opaque 2, Opaque 3]) = Inr (PyDict d)
        \<and> process_batch (example_runner tuple_model) (PyList [Opaque 1, Opaque 2, Opaque 3]) = Inr (PyDict d)
        \<and> d = [(''aug_left'', Opaque 1), (''aug_right'', Opaque 2), (''target'', Opaque 3)])"
  using process_batch_flat
    [where self = "example_runner tuple_model" and xs = "[Opaque 1, Opaque 2]"
       and ?v0.0 = "Opaque 1" and ?v1.0 = "Opaque 2" and ?v2.0 = "Opaque 3"]
  by (simp add: example_runner_def)

text \<open>
  C6.  \<open>_process_batch\<close> returns a batch that is a dict as it is, and normalizing twice
  is normalizing once, for every batch: when the first call raises so does the
  composition, and otherwise the second call returns what the first returned.
\<close>

theorem process_batch_idempotent:
  "process_batch self (PyDict d) = Inr (PyDict d)
   \<and> (case process_batch self b of Inl e \<Rightarrow> Inl e | Inr b' \<Rightarrow> process_batch self b')
       = process_batch self b"
proof
  show "process_batch self (PyDict d) = Inr (PyDict d)"
    by (simp add: process_batch_def)
  show "(case process_batch self b of Inl e \<Rightarrow> Inl e | Inr b' \<Rightarrow> process_batch self b')
       = process_batch self b"
  proof (cases "tuple_or_list b")
    case None
    then show ?thesis by (simp add: process_batch_def)
  next
    case (Some xs)
    then show ?thesis by (simp add: process_batch_def)
  qed
qed

section \<open>Wiring the default callbacks\<close>












text \<open>
  C1.  With a criterion configured and no callback registered, stage setup injects one
  callback, stored under \<open>_criterion\<close>, with the loss key as its metric key; the claim
  says its input and target keys are \<open>projection_left\<close> and \<open>projection_right\<close>, the keys
  \<open>forward\<close> writes.  The code gives it \<open>projection_1\<close> and \<open>projection_2\<close>, which
  \<open>forward\<close> never writes.
\<close>

theorem get_callbacks_default_criterion_keys:
  "get_callbacks ((example_runner tuple_model)\<lparr>optimizer := Unset\<rparr>) [] =
     [(''_criterion'', CriterionCallback ''projection_1'' ''projection_2'' ''loss'')]
   \<and> forward ((example_runner tuple_model)\<lparr>optimizer := Unset\<rparr>)
       [(''aug_left'', Opaque 1), (''aug_right'', Opaque 2)] 0 =
     (Inr [(''aug_left'', Opaque 1), (''aug_right'', Opaque 2), (''projection_left'', Opaque 1),
           (''projection_right'', Opaque 2), (''embedding_left'', Opaque 1),
           (''embedding_right'', Opaque 2)], 0)"
  by (simp add: get_callbacks_def is_callback_exists_def example_defs)

end
